theory Spec2Isabelle
  imports Complex_Main "HOL-Library.AList"
begin

section \<open>Python values and errors\<close>

text \<open>
  The client \<^verbatim>\<open>EcoTwinAPIClient\<close> (file \<^verbatim>\<open>ecotwinclient.py\<close>) handles parsed JSON
  (token responses, status bodies), Python dictionaries and exceptions. A dictionary is
  an association list in insertion order, as Python iterates it; a parsed JSON value is
  a \<open>pyval\<close>; a float is idealised as a real number (no rounding).
\<close>

datatype pyval =
    PNone
  | PBool bool
  | PInt int
  | PFloat real
  | PStr string
  | PList "pyval list"
  | PDict "(string \<times> pyval) list"

type_synonym 'v dict = "(string \<times> 'v) list"

text \<open>
  The one \<^verbatim>\<open>ValueError\<close> the client raises itself has the message
  \<^verbatim>\<open>f"VirtualIO {io_name} must have at least {min_length} values"\<close>; it is kept as its
  two interpolated values.
\<close>

datatype error =
    ZeroDivisionError
  | ValueError string int
  | KeyError string
  | TypeError
  | AttributeError
  | JSONDecodeError
  | ConnectionError
  | HTTPError int

text \<open>\<^verbatim>\<open>d[k]\<close>: raises \<^verbatim>\<open>KeyError\<close> when the key is missing.\<close>

definition getitem :: "'v dict \<Rightarrow> string \<Rightarrow> error + 'v" where
  "getitem d k = (case map_of d k of None \<Rightarrow> Inl (KeyError k) | Some v \<Rightarrow> Inr v)"

text \<open>\<^verbatim>\<open>d.get(k, default)\<close>.\<close>

definition dict_get :: "'v dict \<Rightarrow> string \<Rightarrow> 'v \<Rightarrow> 'v" where
  "dict_get d k dflt = (case map_of d k of None \<Rightarrow> dflt | Some v \<Rightarrow> v)"

text \<open>\<^verbatim>\<open>int(x)\<close> on a finite float truncates towards zero.\<close>

definition int_of_float :: "real \<Rightarrow> int" where
  "int_of_float x = (if 0 \<le> x then \<lfloor>x\<rfloor> else \<lceil>x\<rceil>)"

section \<open>Forecast construction\<close>

record forecast_header =
  hdr_projectId :: string
  hdr_interval :: int
  hdr_start_t :: int

record forecast_timeseries =
  ts_y :: "real list dict"
  ts_n :: "real list dict"

record forecast =
  fc_header :: forecast_header
  fc_timeseries :: forecast_timeseries

text \<open>
  Lines 92--94: the loop over \<^verbatim>\<open>virtual_io_values.items()\<close>, which raises at the first
  channel that is too short.
\<close>

fun check_lengths :: "int \<Rightarrow> real list dict \<Rightarrow> error + unit" where
  "check_lengths min_length [] = Inr ()"
| "check_lengths min_length ((io_name, values) # rest) =
     (if int (length values) < min_length then Inl (ValueError io_name min_length)
      else check_lengths min_length rest)"

text \<open>
  \<^verbatim>\<open>create_eco_forecast(project_id, virtual_io_values, interval)\<close>; \<open>now\<close> is the reading
  of the UTC clock, \<^verbatim>\<open>datetime.now(timezone.utc).timestamp()\<close>. Python's \<^verbatim>\<open>//\<close> on
  integers is floor division, as \<open>div\<close> on \<open>int\<close> is, and raises on a zero divisor.
\<close>

definition create_eco_forecast ::
  "real \<Rightarrow> string \<Rightarrow> real list dict \<Rightarrow> int \<Rightarrow> error + forecast" where
  "create_eco_forecast now project_id virtual_io_values interval =
     (if interval = 0 then Inl ZeroDivisionError
      else
        let min_length = 86400 div interval in
        case check_lengths min_length virtual_io_values of
          Inl e \<Rightarrow> Inl e
        | Inr _ \<Rightarrow>
            Inr \<lparr>fc_header =
                   \<lparr>hdr_projectId = project_id,
                    hdr_interval = interval,
                    hdr_start_t = int_of_float now\<rparr>,
                 fc_timeseries = \<lparr>ts_y = virtual_io_values, ts_n = []\<rparr>\<rparr>)"

text \<open>
  The spec's minimum length, in its own words: the ceiling of 86400 / interval.
\<close>

definition spec_min_length :: "int \<Rightarrow> int" where
  "spec_min_length interval = \<lceil>86400 / real_of_int interval\<rceil>"

section \<open>HTTP through the requests library\<close>

datatype http_method = GET | POST | PUT

datatype payload =
    No_payload
  | Form_data "string dict"
  | Json_payload forecast

record http_request =
  req_method :: http_method
  req_url :: string
  req_headers :: "string dict"
  req_payload :: payload

text \<open>
  A response: its status code and the value \<^verbatim>\<open>response.json()\<close> parses from the body
  (\<open>None\<close> when the body is not JSON).
\<close>

record http_response =
  status_code :: int
  json_body :: "pyval option"

text \<open>
  What lies outside the program: the remote servers (\<open>respond\<close> answers a request, given
  the requests issued before it; \<open>None\<close> is a transport failure), and the two Python
  built-ins whose full behaviour is not needed, \<^verbatim>\<open>int()\<close> on a value that is not already
  an integer and \<^verbatim>\<open>str()\<close> on a value that is not already a string.
\<close>

record env =
  respond :: "http_request list \<Rightarrow> http_request \<Rightarrow> http_response option"
  int_of :: "pyval \<Rightarrow> error + int"
  str_of :: "pyval \<Rightarrow> string"

definition py_int :: "env \<Rightarrow> pyval \<Rightarrow> error + int" where
  "py_int env v = (case v of PInt i \<Rightarrow> Inr i | _ \<Rightarrow> int_of env v)"

text \<open>The interpolation \<^verbatim>\<open>{v}\<close> of an f-string.\<close>

definition py_format :: "env \<Rightarrow> pyval \<Rightarrow> string" where
  "py_format env v = (case v of PStr t \<Rightarrow> t | _ \<Rightarrow> str_of env v)"

text \<open>
  \<^verbatim>\<open>Response.raise_for_status()\<close> of the requests library raises \<^verbatim>\<open>HTTPError\<close> for the
  client errors 400--499 and the server errors 500--599, and for no other status.
\<close>

definition raise_for_status :: "http_response \<Rightarrow> error + unit" where
  "raise_for_status response =
     (if 400 \<le> status_code response \<and> status_code response < 600
      then Inl (HTTPError (status_code response)) else Inr ())"

definition response_json :: "http_response \<Rightarrow> error + pyval" where
  "response_json response =
     (case json_body response of None \<Rightarrow> Inl JSONDecodeError | Some v \<Rightarrow> Inr v)"

section \<open>The token manager\<close>

record credentials =
  cred_client_id :: string
  cred_client_secret :: string
  cred_resource :: string

type_synonym token_data = "pyval dict"

text \<open>
  Modelled from the spec: the class \<^verbatim>\<open>SecureTokenManager\<close> of the module
  \<^verbatim>\<open>tokenmanager\<close> is imported by the client and is not among the sources. The spec
  describes it as a collaborator that stores and retrieves the client credentials and
  caches an access token with an expiry timestamp, through \<^verbatim>\<open>get_credentials()\<close>,
  \<^verbatim>\<open>get_token()\<close> (a token record, or absent) and \<^verbatim>\<open>store_token(token_record)\<close>.
\<close>

record SecureTokenManager =
  tm_credentials :: credentials
  tm_token :: "token_data option"

definition get_credentials :: "SecureTokenManager \<Rightarrow> credentials" where
  "get_credentials tm = tm_credentials tm"

definition get_token :: "SecureTokenManager \<Rightarrow> token_data option" where
  "get_token tm = tm_token tm"

definition store_token :: "token_data \<Rightarrow> SecureTokenManager \<Rightarrow> SecureTokenManager" where
  "store_token token_record tm = tm\<lparr>tm_token := Some token_record\<rparr>"

section \<open>The API client\<close>

text \<open>
  The attributes of an \<^verbatim>\<open>EcoTwinAPIClient\<close> object, and with them the requests issued
  so far (oldest first), which is how the network effects of the methods are observed.
\<close>

record state =
  token_manager :: SecureTokenManager
  client_id :: string
  client_secret :: string
  resource :: string
  sent :: "http_request list"

text \<open>\<^verbatim>\<open>__init__\<close> with \<^verbatim>\<open>_load_credentials\<close>.\<close>

definition init :: "SecureTokenManager \<Rightarrow> state" where
  "init tm =
     (let creds = get_credentials tm in
      \<lparr>token_manager = tm,
       client_id = cred_client_id creds,
       client_secret = cred_client_secret creds,
       resource = cred_resource creds,
       sent = []\<rparr>)"

text \<open>
  \<^verbatim>\<open>requests.post\<close>, \<^verbatim>\<open>requests.put\<close> and \<^verbatim>\<open>requests.get\<close>: one request goes out and is
  answered, or the transport fails.
\<close>

definition requests_send ::
  "env \<Rightarrow> http_request \<Rightarrow> state \<Rightarrow> (error + http_response) \<times> state" where
  "requests_send env request s =
     (case respond env (sent s) request of
        None \<Rightarrow> Inl ConnectionError
      | Some response \<Rightarrow> Inr response,
      s\<lparr>sent := sent s @ [request]\<rparr>)"

definition token_url :: string where
  "token_url = ''https://login.microsoftonline.com/privagroup.onmicrosoft.com/oauth2/token''"

text \<open>A Python truth test on the result of \<^verbatim>\<open>get_token()\<close>: \<^verbatim>\<open>None\<close> and the empty
  dictionary are false.\<close>

definition truthy :: "token_data option \<Rightarrow> bool" where
  "truthy token_data = (case token_data of None \<Rightarrow> False | Some d \<Rightarrow> d \<noteq> [])"

text \<open>\<^verbatim>\<open>token_data['access_token']\<close> where \<^verbatim>\<open>token_data\<close> may be \<^verbatim>\<open>None\<close>.\<close>

definition access_token_of :: "token_data option \<Rightarrow> error + pyval" where
  "access_token_of token_data =
     (case token_data of None \<Rightarrow> Inl TypeError | Some d \<Rightarrow> getitem d ''access_token'')"

text \<open>
  \<^verbatim>\<open>_get_access_token\<close>, lines 41--66: the exchange with the identity endpoint. \<open>now\<close> is
  the reading of \<^verbatim>\<open>time.time()\<close>.
\<close>

definition fetch_token :: "env \<Rightarrow> real \<Rightarrow> state \<Rightarrow> (error + pyval) \<times> state" where
  "fetch_token env now s =
     (let url = token_url;
          payload = [(''grant_type'', ''client_credentials''),
                     (''client_id'', client_id s),
                     (''client_secret'', client_secret s),
                     (''resource'', resource s)];
          headers = [(''Content-Type'', ''application/x-www-form-urlencoded'')]
      in
      case requests_send env
             \<lparr>req_method = POST, req_url = url, req_headers = headers,
              req_payload = Form_data payload\<rparr> s of
        (Inl e, s1) \<Rightarrow> (Inl e, s1)
      | (Inr response, s1) \<Rightarrow>
          (case raise_for_status response of
             Inl e \<Rightarrow> (Inl e, s1)
           | Inr _ \<Rightarrow>
               (case response_json response of
                  Inl e \<Rightarrow> (Inl e, s1)
                | Inr (PDict token_data) \<Rightarrow>
                    (case py_int env (dict_get token_data ''expires_in'' (PStr ''3600'')) of
                       Inl e \<Rightarrow> (Inl e, s1)
                     | Inr expires_in \<Rightarrow>
                         (let token_data' =
                                AList.update ''expires_at''
                                  (PFloat (now + real_of_int expires_in)) token_data;
                              s2 = s1\<lparr>token_manager := store_token token_data' (token_manager s1)\<rparr>
                          in (getitem token_data' ''access_token'', s2)))
                | Inr _ \<Rightarrow> (Inl AttributeError, s1))))"

text \<open>\<^verbatim>\<open>_get_access_token\<close>: the stored token if there is one, a new one otherwise.\<close>

definition get_access_token :: "env \<Rightarrow> real \<Rightarrow> state \<Rightarrow> (error + pyval) \<times> state" where
  "get_access_token env now s =
     (let token_data = get_token (token_manager s) in
      if truthy token_data then (access_token_of token_data, s)
      else fetch_token env now s)"

text \<open>\<^verbatim>\<open>_ensure_valid_token\<close>.\<close>

definition ensure_valid_token :: "env \<Rightarrow> real \<Rightarrow> state \<Rightarrow> (error + pyval) \<times> state" where
  "ensure_valid_token env now s =
     (let token_data = get_token (token_manager s) in
      if \<not> truthy token_data then
        (case get_access_token env now s of
           (Inl e, s1) \<Rightarrow> (Inl e, s1)
         | (Inr _, s1) \<Rightarrow> (access_token_of (get_token (token_manager s1)), s1))
      else (access_token_of token_data, s))"

definition forecast_url :: "string \<Rightarrow> string" where
  "forecast_url eco_twin_id =
     ''https://energyoptimizer.azure-api.net/eco/v2/twins/'' @ eco_twin_id @ ''/forecast/external''"

definition twin_status_url :: "string \<Rightarrow> string" where
  "twin_status_url eco_twin_id =
     ''https://energyoptimizer.azure-api.net/eco/v2/twins/'' @ eco_twin_id @ ''/status''"

definition all_status_url :: string where
  "all_status_url = ''https://energyoptimizer.azure-api.net/eco/v2/status''"

text \<open>\<^verbatim>\<open>put_forecast(eco_twin_id, forecast, check)\<close>.\<close>

definition put_forecast ::
  "env \<Rightarrow> real \<Rightarrow> state \<Rightarrow> string \<Rightarrow> forecast \<Rightarrow> bool \<Rightarrow> (error + http_response) \<times> state" where
  "put_forecast env now s eco_twin_id forecast check =
     (case ensure_valid_token env now s of
        (Inl e, s1) \<Rightarrow> (Inl e, s1)
      | (Inr access_token, s1) \<Rightarrow>
          (let url = forecast_url eco_twin_id;
               url = (if check then url @ ''?check'' else url);
               headers = [(''Authorization'', ''Bearer '' @ py_format env access_token),
                          (''Content-Type'', ''application/json'')]
           in
           case requests_send env
                  \<lparr>req_method = PUT, req_url = url, req_headers = headers,
                   req_payload = Json_payload forecast\<rparr> s1 of
             (Inl e, s2) \<Rightarrow> (Inl e, s2)
           | (Inr response, s2) \<Rightarrow>
               (case raise_for_status response of
                  Inl e \<Rightarrow> (Inl e, s2)
                | Inr _ \<Rightarrow> (Inr response, s2))))"

text \<open>
  The body shared by \<^verbatim>\<open>get_twin_status\<close> and \<^verbatim>\<open>get_all_twins_status\<close>, which differ in
  the URL only.
\<close>

definition get_status :: "env \<Rightarrow> real \<Rightarrow> state \<Rightarrow> string \<Rightarrow> (error + pyval) \<times> state" where
  "get_status env now s url =
     (case ensure_valid_token env now s of
        (Inl e, s1) \<Rightarrow> (Inl e, s1)
      | (Inr access_token, s1) \<Rightarrow>
          (let headers = [(''Authorization'', ''Bearer '' @ py_format env access_token)]
           in
           case requests_send env
                  \<lparr>req_method = GET, req_url = url, req_headers = headers,
                   req_payload = No_payload\<rparr> s1 of
             (Inl e, s2) \<Rightarrow> (Inl e, s2)
           | (Inr response, s2) \<Rightarrow>
               (case raise_for_status response of
                  Inl e \<Rightarrow> (Inl e, s2)
                | Inr _ \<Rightarrow> (response_json response, s2))))"

definition get_twin_status :: "env \<Rightarrow> real \<Rightarrow> state \<Rightarrow> string \<Rightarrow> (error + pyval) \<times> state" where
  "get_twin_status env now s eco_twin_id = get_status env now s (twin_status_url eco_twin_id)"

definition get_all_twins_status :: "env \<Rightarrow> real \<Rightarrow> state \<Rightarrow> (error + pyval) \<times> state" where
  "get_all_twins_status env now s = get_status env now s all_status_url"

text \<open>The requests, among those issued, that went to the identity endpoint.\<close>

definition identity_calls :: "http_request list \<Rightarrow> http_request list" where
  "identity_calls requests = filter (\<lambda>r. req_url r = token_url) requests"

text \<open>
  Whether a token record is expired at time \<open>now\<close>: its \<^verbatim>\<open>expires_at\<close> lies in the past.
\<close>

definition expired :: "real \<Rightarrow> token_data \<Rightarrow> bool" where
  "expired now token_data =
     (case map_of token_data ''expires_at'' of Some (PFloat t) \<Rightarrow> t < now | _ \<Rightarrow> False)"

section \<open>Sample data\<close>

text \<open>
  A client state, a cached token record, a forecast and a remote side to evaluate the
  methods on: the servers answer every request with the given status code, the identity
  endpoint with a token body and the API with a status body; \<open>int_of\<close> reads the one
  string the identity endpoint sends.
\<close>

definition sample_credentials :: credentials where
  "sample_credentials =
     \<lparr>cred_client_id = ''id-1'', cred_client_secret = ''secret-1'', cred_resource = ''res-1''\<rparr>"

definition sample_state :: "token_data option \<Rightarrow> state" where
  "sample_state cached = init \<lparr>tm_credentials = sample_credentials, tm_token = cached\<rparr>"

definition sample_token :: "real \<Rightarrow> token_data" where
  "sample_token t = [(''access_token'', PStr ''cached-token''), (''expires_at'', PFloat t)]"

definition sample_env :: "int \<Rightarrow> env" where
  "sample_env status =
     \<lparr>respond = (\<lambda>earlier request.
        Some \<lparr>status_code = status,
              json_body =
                (if req_url request = token_url
                 then Some (PDict [(''access_token'', PStr ''fresh-token''),
                                   (''expires_in'', PStr ''3599'')])
                 else Some (PDict [(''state'', PStr ''running'')]))\<rparr>),
      int_of = (\<lambda>v. if v = PStr ''3599'' then Inr 3599 else Inl TypeError),
      str_of = (\<lambda>v. ''None'')\<rparr>"

text \<open>A remote side whose answers carry no JSON body.\<close>

definition bodyless_env :: "int \<Rightarrow> env" where
  "bodyless_env status =
     \<lparr>respond = (\<lambda>earlier request. Some \<lparr>status_code = status, json_body = None\<rparr>),
      int_of = (\<lambda>v. Inl TypeError),
      str_of = (\<lambda>v. ''None'')\<rparr>"

definition sample_forecast :: forecast where
  "sample_forecast =
     \<lparr>fc_header = \<lparr>hdr_projectId = ''twin-1'', hdr_interval = 43200, hdr_start_t = 0\<rparr>,
      fc_timeseries = \<lparr>ts_y = [(''heat'', [20, 21])], ts_n = []\<rparr>\<rparr>"

section \<open>Properties of the length check\<close>

lemma check_lengths_ok:
  "\<forall>(k, vs) \<in> set d. m \<le> int (length vs) \<Longrightarrow> check_lengths m d = Inr ()"
  by (induction d) auto

lemma check_lengths_cases:
  "check_lengths m d = Inr () \<and> (\<forall>(k, vs) \<in> set d. m \<le> int (length vs)) \<or>
   (\<exists>k vs. (k, vs) \<in> set d \<and> int (length vs) < m \<and> check_lengths m d = Inl (ValueError k m))"
proof (induction d)
  case Nil
  show ?case by simp
next
  case (Cons p d)
  obtain k vs where p: "p = (k, vs)" by (cases p)
  show ?case
  proof (cases "int (length vs) < m")
    case True
    then have "(k, vs) \<in> set (p # d) \<and> int (length vs) < m
        \<and> check_lengths m (p # d) = Inl (ValueError k m)"
      by (simp add: p)
    then show ?thesis by blast
  next
    case False
    from Cons.IH show ?thesis
    proof
      assume "check_lengths m d = Inr () \<and> (\<forall>(k, vs) \<in> set d. m \<le> int (length vs))"
      with False show ?thesis by (simp add: p)
    next
      assume "\<exists>k vs. (k, vs) \<in> set d \<and> int (length vs) < m
          \<and> check_lengths m d = Inl (ValueError k m)"
      then obtain k' vs' where "(k', vs') \<in> set d" "int (length vs') < m"
          "check_lengths m d = Inl (ValueError k' m)" by blast
      with False have "(k', vs') \<in> set (p # d) \<and> int (length vs') < m
          \<and> check_lengths m (p # d) = Inl (ValueError k' m)"
        by (simp add: p)
      then show ?thesis by blast
    qed
  qed
qed

text \<open>
  What the check computes. The minimum length is the floor division
  \<open>86400 div interval\<close>. For every project id, every channel mapping and every interval
  other than zero, \<open>create_eco_forecast\<close> fails with the validation error exactly when
  some channel is shorter than \<open>86400 div interval\<close>, succeeds exactly when none is,
  and on success every value sequence of the returned \<open>y\<close> has at least
  \<open>86400 div interval\<close> elements. The validation error names a channel of the mapping
  that is too short, and that minimum.
\<close>

lemma create_eco_forecast_floor_validation:
  assumes "interval \<noteq> 0"
  shows "((\<exists>k. create_eco_forecast now project_id virtual_io_values interval
                = Inl (ValueError k (86400 div interval)))
          \<longleftrightarrow> (\<exists>(k, vs) \<in> set virtual_io_values. int (length vs) < 86400 div interval))
       \<and> ((\<exists>f. create_eco_forecast now project_id virtual_io_values interval = Inr f)
          \<longleftrightarrow> \<not> (\<exists>(k, vs) \<in> set virtual_io_values. int (length vs) < 86400 div interval))
       \<and> (\<forall>f. create_eco_forecast now project_id virtual_io_values interval = Inr f
          \<longrightarrow> (\<forall>(k, vs) \<in> set (ts_y (fc_timeseries f)). 86400 div interval \<le> int (length vs)))
       \<and> (\<forall>k m. create_eco_forecast now project_id virtual_io_values interval
                = Inl (ValueError k m)
          \<longrightarrow> m = 86400 div interval
              \<and> (\<exists>vs. (k, vs) \<in> set virtual_io_values \<and> int (length vs) < m))"
proof -
  let ?m = "86400 div interval"
  let ?short = "\<exists>(k, vs) \<in> set virtual_io_values. int (length vs) < ?m"
  from check_lengths_cases [of ?m virtual_io_values] show ?thesis
  proof
    assume ok: "check_lengths ?m virtual_io_values = Inr ()
        \<and> (\<forall>(k, vs) \<in> set virtual_io_values. ?m \<le> int (length vs))"
    then have "\<not> ?short" by fastforce
    with ok assms show ?thesis
      by (simp add: create_eco_forecast_def)
  next
    assume "\<exists>k vs. (k, vs) \<in> set virtual_io_values \<and> int (length vs) < ?m
        \<and> check_lengths ?m virtual_io_values = Inl (ValueError k ?m)"
    then obtain k vs where bad: "(k, vs) \<in> set virtual_io_values" "int (length vs) < ?m"
        "check_lengths ?m virtual_io_values = Inl (ValueError k ?m)" by blast
    from bad(1,2) have "?short" by blast
    moreover from bad(1,2) have "\<exists>vs. (k, vs) \<in> set virtual_io_values \<and> int (length vs) < ?m"
      by blast
    ultimately show ?thesis using bad(3) assms
      by (simp add: create_eco_forecast_def)
  qed
qed

section \<open>Forecast validation\<close>

text \<open>
  Claim C1, evaluated where the code departs from it. The claim asks for at least
  the ceiling of 86400 / interval values in every channel, which is what a full 24-hour
  window needs; the code computes the floor. At interval 7000 the ceiling is 13, yet a
  channel of 12 values is accepted and a forecast is returned, although 12 values
  7000 seconds apart span less than the 86400 seconds of a day.
\<close>

theorem floor_minimum_accepts_short_channel:
  "create_eco_forecast 0 ''p'' [(''a'', replicate 12 0)] 7000
     = Inr \<lparr>fc_header = \<lparr>hdr_projectId = ''p'', hdr_interval = 7000, hdr_start_t = 0\<rparr>,
            fc_timeseries = \<lparr>ts_y = [(''a'', replicate 12 0)], ts_n = []\<rparr>\<rparr>
   \<and> int (length (replicate 12 (0::real))) < spec_min_length 7000
   \<and> int (length (replicate 12 (0::real))) * 7000 < 86400"
  by (simp add: create_eco_forecast_def spec_min_length_def int_of_float_def)

text \<open>
  Claim C3. At interval 300 the minimum is 288: a channel of 287 values raises the
  validation error (naming it when it is the only channel, and whatever other channels
  the mapping holds), and a mapping whose channels all have 288 values or more yields a
  forecast.
\<close>

theorem interval_300_threshold:
  "(length vs = 287 \<longrightarrow>
      create_eco_forecast now project_id [(io_name, vs)] 300 = Inl (ValueError io_name 288))
   \<and> ((k, ws) \<in> set short \<and> length ws = 287 \<longrightarrow>
      (\<exists>k'. create_eco_forecast now project_id short 300 = Inl (ValueError k' 288)))
   \<and> ((\<forall>(k, ws) \<in> set full. 288 \<le> length ws) \<longrightarrow>
      (\<exists>f. create_eco_forecast now project_id full 300 = Inr f))"
proof -
  have m: "(86400::int) div 300 = 288" by simp
  have a: "length vs = 287 \<longrightarrow>
      create_eco_forecast now project_id [(io_name, vs)] 300 = Inl (ValueError io_name 288)"
    by (simp add: create_eco_forecast_def)
  have b: "(k, ws) \<in> set short \<and> length ws = 287 \<longrightarrow>
      (\<exists>k'. create_eco_forecast now project_id short 300 = Inl (ValueError k' 288))"
    using check_lengths_cases [of 288 short]
    by (auto simp: create_eco_forecast_def)
  have c: "(\<forall>(k, ws) \<in> set full. 288 \<le> length ws) \<longrightarrow>
      (\<exists>f. create_eco_forecast now project_id full 300 = Inr f)"
    using check_lengths_cases [of 288 full]
    by (fastforce simp: create_eco_forecast_def)
  from a b c show ?thesis by blast
qed

text \<open>Claim C3 at concrete mappings: 287 values fail, 288 and 300 succeed.\<close>

theorem interval_300_threshold_witness:
  "length (replicate 287 (0::real)) = 287
   \<and> create_eco_forecast 0 ''p'' [(''a'', replicate 287 0)] 300 = Inl (ValueError ''a'' 288)
   \<and> (''b'', replicate 287 0) \<in> set [(''a'', replicate 300 (0::real)), (''b'', replicate 287 0)]
   \<and> (\<exists>k'. create_eco_forecast 0 ''p'' [(''a'', replicate 300 0), (''b'', replicate 287 0)] 300
             = Inl (ValueError k' 288))
   \<and> 288 \<le> length (replicate 288 (0::real)) \<and> 288 \<le> length (replicate 300 (0::real))
   \<and> (\<exists>f. create_eco_forecast 0 ''p'' [(''a'', replicate 288 0), (''b'', replicate 300 0)] 300 = Inr f)"
  using interval_300_threshold [of "replicate 287 0" 0 "''p''" "''a''" "''b''" "replicate 287 0"
      "[(''a'', replicate 300 0), (''b'', replicate 287 0)]"
      "[(''a'', replicate 288 0), (''b'', replicate 300 0)]"]
  by simp

text \<open>
  Claim C8. A forecast that \<open>create_eco_forecast\<close> returns has the header made of the
  given project id, the given interval and the current UTC epoch time truncated to an
  integer, and the timeseries made of the given channel mapping, unchanged, as \<open>y\<close>
  and the empty mapping as \<open>n\<close>.
\<close>

theorem create_eco_forecast_shape:
  "create_eco_forecast now project_id virtual_io_values interval = Inr f \<Longrightarrow>
   f = \<lparr>fc_header =
          \<lparr>hdr_projectId = project_id, hdr_interval = interval, hdr_start_t = int_of_float now\<rparr>,
        fc_timeseries = \<lparr>ts_y = virtual_io_values, ts_n = []\<rparr>\<rparr>"
  by (auto simp: create_eco_forecast_def Let_def split: if_splits sum.splits)

text \<open>Claim C8 at a concrete call, half a second and a quarter past a full second.\<close>

theorem create_eco_forecast_shape_witness:
  "create_eco_forecast 1762250000.75 ''twin-1'' [(''heat'', replicate 288 20)] 300
     = Inr \<lparr>fc_header =
          \<lparr>hdr_projectId = ''twin-1'', hdr_interval = 300, hdr_start_t = 1762250000\<rparr>,
        fc_timeseries = \<lparr>ts_y = [(''heat'', replicate 288 20)], ts_n = []\<rparr>\<rparr>
   \<and> \<lparr>fc_header =
          \<lparr>hdr_projectId = ''twin-1'', hdr_interval = 300, hdr_start_t = 1762250000\<rparr>,
        fc_timeseries = \<lparr>ts_y = [(''heat'', replicate 288 20)], ts_n = []\<rparr>\<rparr>
     = \<lparr>fc_header =
          \<lparr>hdr_projectId = ''twin-1'', hdr_interval = 300,
           hdr_start_t = int_of_float 1762250000.75\<rparr>,
        fc_timeseries = \<lparr>ts_y = [(''heat'', replicate 288 20)], ts_n = []\<rparr>\<rparr>"
proof -
  have h: "create_eco_forecast 1762250000.75 ''twin-1'' [(''heat'', replicate 288 20)] 300
     = Inr \<lparr>fc_header =
          \<lparr>hdr_projectId = ''twin-1'', hdr_interval = 300, hdr_start_t = 1762250000\<rparr>,
        fc_timeseries = \<lparr>ts_y = [(''heat'', replicate 288 20)], ts_n = []\<rparr>\<rparr>"
    by (simp add: create_eco_forecast_def int_of_float_def)
  show ?thesis using h create_eco_forecast_shape [OF h] by simp
qed

text \<open>
  Claim C9. The division by the interval is unguarded: at interval 0 the call fails with
  the division error, not with the validation error; and for every negative interval
  the computed minimum is not positive, so that every channel mapping passes and a
  forecast is returned.
\<close>

theorem unguarded_division:
  "create_eco_forecast now project_id virtual_io_values 0 = Inl ZeroDivisionError
   \<and> (interval < 0 \<longrightarrow>
        86400 div interval \<le> 0
        \<and> create_eco_forecast now project_id virtual_io_values interval
          = Inr \<lparr>fc_header =
                  \<lparr>hdr_projectId = project_id, hdr_interval = interval,
                   hdr_start_t = int_of_float now\<rparr>,
                 fc_timeseries = \<lparr>ts_y = virtual_io_values, ts_n = []\<rparr>\<rparr>)"
proof -
  have z: "create_eco_forecast now project_id virtual_io_values 0 = Inl ZeroDivisionError"
    by (simp add: create_eco_forecast_def)
  have n: "86400 div interval < 0" if "interval < 0"
    using that by (simp add: neg_imp_zdiv_neg_iff)
  have ok: "check_lengths (86400 div interval) virtual_io_values = Inr ()" if "interval < 0"
    using n [OF that] by (intro check_lengths_ok) auto
  show ?thesis using z n ok by (auto simp: create_eco_forecast_def)
qed

text \<open>Claim C9 at interval 0 and at interval -300, with an empty channel.\<close>

theorem unguarded_division_witness:
  "create_eco_forecast 0 ''p'' [(''a'', [])] 0 = Inl ZeroDivisionError
   \<and> (-300::int) < 0 \<and> (86400::int) div (-300) \<le> 0
   \<and> create_eco_forecast 0 ''p'' [(''a'', [])] (-300)
          = Inr \<lparr>fc_header =
                  \<lparr>hdr_projectId = ''p'', hdr_interval = -300, hdr_start_t = 0\<rparr>,
                 fc_timeseries = \<lparr>ts_y = [(''a'', [])], ts_n = []\<rparr>\<rparr>"
  using unguarded_division [of 0 "''p''" "[(''a'', [])]" "-300"]
  by (simp add: int_of_float_def)

text \<open>
  Claim C10. For every project id and every interval of at least 1, the empty channel
  mapping is accepted, and the forecast returned has empty \<open>y\<close> and empty \<open>n\<close>.
\<close>

theorem empty_mapping_succeeds:
  "1 \<le> interval \<Longrightarrow>
   create_eco_forecast now project_id [] interval
     = Inr \<lparr>fc_header =
             \<lparr>hdr_projectId = project_id, hdr_interval = interval,
              hdr_start_t = int_of_float now\<rparr>,
            fc_timeseries = \<lparr>ts_y = [], ts_n = []\<rparr>\<rparr>"
  by (simp add: create_eco_forecast_def)

text \<open>Claim C10 at interval 300.\<close>

theorem empty_mapping_succeeds_witness:
  "(1::int) \<le> 300
   \<and> create_eco_forecast 12.5 ''p'' [] 300
     = Inr \<lparr>fc_header = \<lparr>hdr_projectId = ''p'', hdr_interval = 300, hdr_start_t = 12\<rparr>,
            fc_timeseries = \<lparr>ts_y = [], ts_n = []\<rparr>\<rparr>"
  using empty_mapping_succeeds [of 300 "12.5" "''p''"]
  by (simp add: int_of_float_def)

section \<open>Token handling\<close>

lemma map_of_nonempty: "map_of d k = Some v \<Longrightarrow> d \<noteq> []"
  by auto

lemma ensure_valid_token_cached:
  assumes "get_token (token_manager s) = Some td" and "map_of td ''access_token'' = Some tok"
  shows "ensure_valid_token env now s = (Inr tok, s)"
  using assms map_of_nonempty [OF assms(2)]
  by (simp add: ensure_valid_token_def truthy_def access_token_of_def getitem_def)

lemma put_forecast_after_token:
  assumes "ensure_valid_token env now s = (Inr tok, s1)"
  shows "put_forecast env now s eco_twin_id fc chk =
    (case respond env (sent s1)
            \<lparr>req_method = PUT,
             req_url = forecast_url eco_twin_id @ (if chk then ''?check'' else ''''),
             req_headers = [(''Authorization'', ''Bearer '' @ py_format env tok),
                            (''Content-Type'', ''application/json'')],
             req_payload = Json_payload fc\<rparr> of
       None \<Rightarrow> Inl ConnectionError
     | Some r \<Rightarrow> (case raise_for_status r of Inl e \<Rightarrow> Inl e | Inr _ \<Rightarrow> Inr r),
     s1\<lparr>sent := sent s1 @
        [\<lparr>req_method = PUT,
          req_url = forecast_url eco_twin_id @ (if chk then ''?check'' else ''''),
          req_headers = [(''Authorization'', ''Bearer '' @ py_format env tok),
                         (''Content-Type'', ''application/json'')],
          req_payload = Json_payload fc\<rparr>]\<rparr>)"
  using assms
  by (cases chk) (simp_all add: put_forecast_def requests_send_def Let_def
      split: option.splits sum.splits)

lemma get_status_after_token:
  assumes "ensure_valid_token env now s = (Inr tok, s1)"
  shows "get_status env now s url =
    (case respond env (sent s1)
            \<lparr>req_method = GET, req_url = url,
             req_headers = [(''Authorization'', ''Bearer '' @ py_format env tok)],
             req_payload = No_payload\<rparr> of
       None \<Rightarrow> Inl ConnectionError
     | Some r \<Rightarrow> (case raise_for_status r of Inl e \<Rightarrow> Inl e | Inr _ \<Rightarrow> response_json r),
     s1\<lparr>sent := sent s1 @
        [\<lparr>req_method = GET, req_url = url,
          req_headers = [(''Authorization'', ''Bearer '' @ py_format env tok)],
          req_payload = No_payload\<rparr>]\<rparr>)"
  using assms
  by (simp add: get_status_def requests_send_def Let_def split: option.splits sum.splits)

lemma api_urls_not_identity:
  "forecast_url eco_twin_id @ q \<noteq> token_url"
  "twin_status_url eco_twin_id \<noteq> token_url"
  "all_status_url \<noteq> token_url"
  by (simp_all add: forecast_url_def twin_status_url_def all_status_url_def token_url_def)

lemma fetch_token_response:
  assumes "respond env (sent s)
             \<lparr>req_method = POST, req_url = token_url,
              req_headers = [(''Content-Type'', ''application/x-www-form-urlencoded'')],
              req_payload = Form_data [(''grant_type'', ''client_credentials''),
                                       (''client_id'', client_id s),
                                       (''client_secret'', client_secret s),
                                       (''resource'', resource s)]\<rparr> = Some r"
  shows "fetch_token env now s =
    (let s1 = s\<lparr>sent := sent s @
                 [\<lparr>req_method = POST, req_url = token_url,
                   req_headers = [(''Content-Type'', ''application/x-www-form-urlencoded'')],
                   req_payload = Form_data [(''grant_type'', ''client_credentials''),
                                            (''client_id'', client_id s),
                                            (''client_secret'', client_secret s),
                                            (''resource'', resource s)]\<rparr>]\<rparr>
     in if 400 \<le> status_code r \<and> status_code r < 600
        then (Inl (HTTPError (status_code r)), s1)
        else case json_body r of
               None \<Rightarrow> (Inl JSONDecodeError, s1)
             | Some (PDict td) \<Rightarrow>
                 (case py_int env (dict_get td ''expires_in'' (PStr ''3600'')) of
                    Inl e \<Rightarrow> (Inl e, s1)
                  | Inr expires_in \<Rightarrow>
                      (getitem (AList.update ''expires_at''
                                  (PFloat (now + real_of_int expires_in)) td) ''access_token'',
                       s1\<lparr>token_manager := store_token
                            (AList.update ''expires_at''
                               (PFloat (now + real_of_int expires_in)) td) (token_manager s1)\<rparr>))
             | Some _ \<Rightarrow> (Inl AttributeError, s1))"
  using assms
  by (simp add: fetch_token_def requests_send_def raise_for_status_def response_json_def Let_def
      split: option.splits sum.splits pyval.splits)

lemma sample_state_fields:
  "token_manager (sample_state c) = \<lparr>tm_credentials = sample_credentials, tm_token = c\<rparr>"
  "client_id (sample_state c) = ''id-1''"
  "client_secret (sample_state c) = ''secret-1''"
  "resource (sample_state c) = ''res-1''"
  "sent (sample_state c) = []"
  by (simp_all add: sample_state_def init_def Let_def get_credentials_def sample_credentials_def)

lemma sample_respond:
  "respond (sample_env st) earlier request =
     Some \<lparr>status_code = st,
           json_body =
             (if req_url request = token_url
              then Some (PDict [(''access_token'', PStr ''fresh-token''),
                                (''expires_in'', PStr ''3599'')])
              else Some (PDict [(''state'', PStr ''running'')]))\<rparr>"
  by (simp add: sample_env_def)

lemma sample_cached_any:
  "ensure_valid_token env now (sample_state (Some (sample_token t)))
     = (Inr (PStr ''cached-token''), sample_state (Some (sample_token t)))"
  by (rule ensure_valid_token_cached [of _ "sample_token t"])
     (simp_all add: sample_state_fields get_token_def sample_token_def)

text \<open>
  Claim C2, evaluated where the code departs from it. The token manager holds a record
  whose \<open>expires_at\<close> is 500 and the clock reads 1000: \<open>ensure_valid_token\<close> returns
  the access token of that expired record, the state is unchanged and no request has
  gone out, so no fresh token was fetched. The method tests only whether a record is
  present; \<open>expires_at\<close> is written when a token is fetched and never read.
\<close>

theorem stale_token_returned:
  "expired 1000 (sample_token 500)
   \<and> ensure_valid_token (sample_env 200) 1000 (sample_state (Some (sample_token 500)))
       = (Inr (PStr ''cached-token''), sample_state (Some (sample_token 500)))
   \<and> sent (snd (ensure_valid_token (sample_env 200) 1000
        (sample_state (Some (sample_token 500))))) = []"
  by (simp add: ensure_valid_token_def get_token_def truthy_def access_token_of_def getitem_def
      sample_state_fields sample_token_def expired_def Let_def)

text \<open>
  Claim C4. When the token manager holds a token record (one with an access token;
  whether it is expired plays no part), \<open>ensure_valid_token\<close> returns that access token
  and leaves the whole state as it was, so nothing is sent; and \<open>put_forecast\<close>,
  \<open>get_twin_status\<close> and \<open>get_all_twins_status\<close> leave the token manager as it was
  and add no request to the identity endpoint.
\<close>

theorem cached_token_no_identity_call:
  assumes "get_token (token_manager s) = Some td" and "map_of td ''access_token'' = Some tok"
  shows "ensure_valid_token env now s = (Inr tok, s)
    \<and> token_manager (snd (put_forecast env now s eco_twin_id fc chk)) = token_manager s
    \<and> identity_calls (sent (snd (put_forecast env now s eco_twin_id fc chk)))
        = identity_calls (sent s)
    \<and> token_manager (snd (get_twin_status env now s eco_twin_id)) = token_manager s
    \<and> identity_calls (sent (snd (get_twin_status env now s eco_twin_id)))
        = identity_calls (sent s)
    \<and> token_manager (snd (get_all_twins_status env now s)) = token_manager s
    \<and> identity_calls (sent (snd (get_all_twins_status env now s)))
        = identity_calls (sent s)"
proof -
  have e: "ensure_valid_token env now s = (Inr tok, s)"
    using assms by (rule ensure_valid_token_cached)
  have p: "token_manager (snd (put_forecast env now s eco_twin_id fc chk)) = token_manager s
    \<and> identity_calls (sent (snd (put_forecast env now s eco_twin_id fc chk)))
        = identity_calls (sent s)"
    by (simp add: put_forecast_after_token [OF e] identity_calls_def api_urls_not_identity)
  have g: "token_manager (snd (get_status env now s url)) = token_manager s
    \<and> (url \<noteq> token_url \<longrightarrow>
        identity_calls (sent (snd (get_status env now s url))) = identity_calls (sent s))"
    for url
    by (simp add: get_status_after_token [OF e] identity_calls_def)
  show ?thesis
    using e p g [of "twin_status_url eco_twin_id"] g [of all_status_url]
    by (simp add: get_twin_status_def get_all_twins_status_def api_urls_not_identity)
qed

text \<open>Claim C4 at a cached record that expires at 500, the clock reading 100.\<close>

theorem cached_token_no_identity_call_witness:
  "get_token (token_manager (sample_state (Some (sample_token 500)))) = Some (sample_token 500)
   \<and> map_of (sample_token 500) ''access_token'' = Some (PStr ''cached-token'')
   \<and> \<not> expired 100 (sample_token 500)
   \<and> ensure_valid_token (sample_env 200) 100 (sample_state (Some (sample_token 500)))
       = (Inr (PStr ''cached-token''), sample_state (Some (sample_token 500)))
   \<and> identity_calls (sent (snd (get_all_twins_status (sample_env 200) 100
         (sample_state (Some (sample_token 500)))))) = []"
proof -
  let ?s = "sample_state (Some (sample_token 500))"
  have h1: "get_token (token_manager ?s) = Some (sample_token 500)"
    by (simp add: sample_state_def init_def Let_def get_token_def)
  have h2: "map_of (sample_token 500) ''access_token'' = Some (PStr ''cached-token'')"
    by (simp add: sample_token_def)
  have h3: "\<not> expired 100 (sample_token 500)"
    by (simp add: expired_def sample_token_def)
  have e: "sent ?s = []"
    by (simp add: sample_state_def init_def Let_def)
  from cached_token_no_identity_call [OF h1 h2, of "sample_env 200" 100 "''twin-1''" sample_forecast True]
  show ?thesis using h1 h2 h3 by (simp add: e identity_calls_def)
qed

text \<open>
  Claim C5. When no token is cached and the identity endpoint answers the POST with a
  2xx status and a JSON object holding an access token, \<open>get_access_token\<close> issues that
  one POST, sets \<open>expires_at\<close> to the clock reading plus \<open>expires_in\<close> (the integer
  value of the response's \<open>expires_in\<close>, of the string 3600 when it has none), hands
  the record to \<open>store_token\<close>, and returns the access token of that record.
\<close>

theorem token_acquisition:
  assumes "\<not> truthy (get_token (token_manager s))"
    and "respond env (sent s)
             \<lparr>req_method = POST, req_url = token_url,
              req_headers = [(''Content-Type'', ''application/x-www-form-urlencoded'')],
              req_payload = Form_data [(''grant_type'', ''client_credentials''),
                                       (''client_id'', client_id s),
                                       (''client_secret'', client_secret s),
                                       (''resource'', resource s)]\<rparr> = Some r"
    and "200 \<le> status_code r" and "status_code r < 300"
    and "json_body r = Some (PDict td)"
    and "py_int env (dict_get td ''expires_in'' (PStr ''3600'')) = Inr expires_in"
    and "map_of td ''access_token'' = Some tok"
  shows "get_access_token env now s =
      (Inr tok,
       s\<lparr>sent := sent s @
            [\<lparr>req_method = POST, req_url = token_url,
              req_headers = [(''Content-Type'', ''application/x-www-form-urlencoded'')],
              req_payload = Form_data [(''grant_type'', ''client_credentials''),
                                       (''client_id'', client_id s),
                                       (''client_secret'', client_secret s),
                                       (''resource'', resource s)]\<rparr>],
         token_manager := store_token
            (AList.update ''expires_at'' (PFloat (now + real_of_int expires_in)) td)
            (token_manager s)\<rparr>)
    \<and> get_token (token_manager (snd (get_access_token env now s)))
        = Some (AList.update ''expires_at'' (PFloat (now + real_of_int expires_in)) td)
    \<and> map_of (AList.update ''expires_at'' (PFloat (now + real_of_int expires_in)) td)
          ''expires_at'' = Some (PFloat (now + real_of_int expires_in))
    \<and> getitem (AList.update ''expires_at'' (PFloat (now + real_of_int expires_in)) td)
          ''access_token'' = Inr tok"
  using assms
  by (simp add: get_access_token_def fetch_token_response [OF assms(2)] Let_def getitem_def
      update_conv' get_token_def store_token_def)

text \<open>Claim C5 at a fresh client, the clock reading 1000 and \<open>expires_in\<close> being 3599.\<close>

theorem token_acquisition_witness:
  "\<not> truthy (get_token (token_manager (sample_state None)))
   \<and> get_access_token (sample_env 200) 1000 (sample_state None) =
      (Inr (PStr ''fresh-token''),
       (sample_state None)
         \<lparr>sent := [\<lparr>req_method = POST, req_url = token_url,
              req_headers = [(''Content-Type'', ''application/x-www-form-urlencoded'')],
              req_payload = Form_data [(''grant_type'', ''client_credentials''),
                                       (''client_id'', ''id-1''),
                                       (''client_secret'', ''secret-1''),
                                       (''resource'', ''res-1'')]\<rparr>],
          token_manager := store_token
            [(''access_token'', PStr ''fresh-token''), (''expires_in'', PStr ''3599''),
             (''expires_at'', PFloat 4599)]
            (token_manager (sample_state None))\<rparr>)"
proof -
  let ?s = "sample_state None"
  let ?r = "\<lparr>status_code = 200,
             json_body = Some (PDict [(''access_token'', PStr ''fresh-token''),
                                      (''expires_in'', PStr ''3599'')])\<rparr>"
  have h1: "\<not> truthy (get_token (token_manager ?s))"
    by (simp add: sample_state_fields get_token_def truthy_def)
  have h2: "respond (sample_env 200) (sent ?s)
             \<lparr>req_method = POST, req_url = token_url,
              req_headers = [(''Content-Type'', ''application/x-www-form-urlencoded'')],
              req_payload = Form_data [(''grant_type'', ''client_credentials''),
                                       (''client_id'', client_id ?s),
                                       (''client_secret'', client_secret ?s),
                                       (''resource'', resource ?s)]\<rparr> = Some ?r"
    by (simp add: sample_respond)
  have h3: "200 \<le> status_code ?r" and h4: "status_code ?r < 300"
    by simp_all
  have h5: "json_body ?r = Some (PDict [(''access_token'', PStr ''fresh-token''),
                                      (''expires_in'', PStr ''3599'')])"
    by simp
  have h6: "py_int (sample_env 200)
      (dict_get [(''access_token'', PStr ''fresh-token''), (''expires_in'', PStr ''3599'')]
         ''expires_in'' (PStr ''3600'')) = Inr 3599"
    by (simp add: py_int_def dict_get_def sample_env_def)
  have h7: "map_of [(''access_token'', PStr ''fresh-token''), (''expires_in'', PStr ''3599'')]
      ''access_token'' = Some (PStr ''fresh-token'')"
    by simp
  from token_acquisition [OF h1 h2 h3 h4 h5 h6 h7, of 1000]
  show ?thesis using h1 by (simp add: sample_state_fields)
qed

section \<open>Request dispatch\<close>

text \<open>
  Claim C6. Once \<open>ensure_valid_token\<close> has returned a token, \<open>put_forecast\<close> issues one
  PUT: with \<open>check\<close> true to the forecast URL of the twin followed by \<open>?check\<close>, with
  \<open>check\<close> false to that URL with nothing appended; in both cases the Authorization
  header is \<open>Bearer\<close>, a space and the token (a string token as it is), the content type
  is JSON and the payload is the forecast.
\<close>

theorem put_forecast_request:
  assumes "ensure_valid_token env now s = (Inr tok, s1)"
  shows "sent (snd (put_forecast env now s eco_twin_id fc True)) = sent s1 @
      [\<lparr>req_method = PUT,
        req_url = ''https://energyoptimizer.azure-api.net/eco/v2/twins/'' @ eco_twin_id
                  @ ''/forecast/external'' @ ''?check'',
        req_headers = [(''Authorization'', ''Bearer '' @ py_format env tok),
                       (''Content-Type'', ''application/json'')],
        req_payload = Json_payload fc\<rparr>]
    \<and> sent (snd (put_forecast env now s eco_twin_id fc False)) = sent s1 @
      [\<lparr>req_method = PUT,
        req_url = ''https://energyoptimizer.azure-api.net/eco/v2/twins/'' @ eco_twin_id
                  @ ''/forecast/external'',
        req_headers = [(''Authorization'', ''Bearer '' @ py_format env tok),
                       (''Content-Type'', ''application/json'')],
        req_payload = Json_payload fc\<rparr>]
    \<and> (\<forall>t. tok = PStr t \<longrightarrow> py_format env tok = t)"
  by (simp add: put_forecast_after_token [OF assms] forecast_url_def py_format_def)

text \<open>Claim C6 at the twin \<open>twin-1\<close> with a cached token.\<close>

theorem put_forecast_request_witness:
  "ensure_valid_token (sample_env 200) 100 (sample_state (Some (sample_token 500)))
       = (Inr (PStr ''cached-token''), sample_state (Some (sample_token 500)))
   \<and> sent (snd (put_forecast (sample_env 200) 100 (sample_state (Some (sample_token 500)))
        ''twin-1'' sample_forecast True)) =
      [\<lparr>req_method = PUT,
        req_url = ''https://energyoptimizer.azure-api.net/eco/v2/twins/twin-1/forecast/external?check'',
        req_headers = [(''Authorization'', ''Bearer cached-token''),
                       (''Content-Type'', ''application/json'')],
        req_payload = Json_payload sample_forecast\<rparr>]
   \<and> sent (snd (put_forecast (sample_env 200) 100 (sample_state (Some (sample_token 500)))
        ''twin-1'' sample_forecast False)) =
      [\<lparr>req_method = PUT,
        req_url = ''https://energyoptimizer.azure-api.net/eco/v2/twins/twin-1/forecast/external'',
        req_headers = [(''Authorization'', ''Bearer cached-token''),
                       (''Content-Type'', ''application/json'')],
        req_payload = Json_payload sample_forecast\<rparr>]"
proof -
  have e: "sent (sample_state (Some (sample_token 500))) = []"
    by (simp add: sample_state_def init_def Let_def)
  show ?thesis
    using put_forecast_request [OF sample_cached_any, of "sample_env 200" 100 500
        "''twin-1''" sample_forecast]
    by (simp add: sample_cached_any e py_format_def)
qed

text \<open>
  An error of the token POST leaves \<open>ensure_valid_token\<close> and, through it, the public
  methods, with the state the POST left.
\<close>

lemma token_error_reaches_caller:
  assumes "\<not> truthy (get_token (token_manager s))"
    and "get_access_token env now s = (Inl e, s1)"
  shows "ensure_valid_token env now s = (Inl e, s1)"
    and "put_forecast env now s eco_twin_id fc chk = (Inl e, s1)"
    and "get_status env now s url = (Inl e, s1)"
proof -
  show e: "ensure_valid_token env now s = (Inl e, s1)"
    using assms by (simp add: ensure_valid_token_def)
  show "put_forecast env now s eco_twin_id fc chk = (Inl e, s1)"
    by (simp add: put_forecast_def e)
  show "get_status env now s url = (Inl e, s1)"
    by (simp add: get_status_def e)
qed

text \<open>
  Claim C7, as amended. The error statuses are those \<open>raise_for_status\<close> knows, 400 to
  599, not every status outside 2xx. A token POST answered 4xx or 5xx fails with the
  HTTP error, and that error reaches the caller of \<open>put_forecast\<close>, \<open>get_twin_status\<close>
  and \<open>get_all_twins_status\<close> with the POST as the only request sent. Once a token is
  there, each of the three issues exactly one request (no retry) and fails with the HTTP
  error when the status of its response is 4xx or 5xx; on any other status
  \<open>put_forecast\<close> returns the response, and the two status methods return the parsed
  JSON body, or fail with a decode error when the body is not JSON. In particular, on a
  2xx response with a JSON body they return that parsed body.
\<close>

theorem http_errors_propagate:
  "(\<not> truthy (get_token (token_manager fresh))
      \<and> respond env (sent fresh)
           \<lparr>req_method = POST, req_url = token_url,
            req_headers = [(''Content-Type'', ''application/x-www-form-urlencoded'')],
            req_payload = Form_data [(''grant_type'', ''client_credentials''),
                                     (''client_id'', client_id fresh),
                                     (''client_secret'', client_secret fresh),
                                     (''resource'', resource fresh)]\<rparr> = Some rt
      \<and> 400 \<le> status_code rt \<and> status_code rt < 600
    \<longrightarrow> get_access_token env now fresh =
         (Inl (HTTPError (status_code rt)),
          fresh\<lparr>sent := sent fresh @
            [\<lparr>req_method = POST, req_url = token_url,
            req_headers = [(''Content-Type'', ''application/x-www-form-urlencoded'')],
            req_payload = Form_data [(''grant_type'', ''client_credentials''),
                                     (''client_id'', client_id fresh),
                                     (''client_secret'', client_secret fresh),
                                     (''resource'', resource fresh)]\<rparr>]\<rparr>)
      \<and> ensure_valid_token env now fresh =
         (Inl (HTTPError (status_code rt)),
          fresh\<lparr>sent := sent fresh @
            [\<lparr>req_method = POST, req_url = token_url,
            req_headers = [(''Content-Type'', ''application/x-www-form-urlencoded'')],
            req_payload = Form_data [(''grant_type'', ''client_credentials''),
                                     (''client_id'', client_id fresh),
                                     (''client_secret'', client_secret fresh),
                                     (''resource'', resource fresh)]\<rparr>]\<rparr>)
      \<and> put_forecast env now fresh eco_twin_id fc chk =
         (Inl (HTTPError (status_code rt)),
          fresh\<lparr>sent := sent fresh @
            [\<lparr>req_method = POST, req_url = token_url,
            req_headers = [(''Content-Type'', ''application/x-www-form-urlencoded'')],
            req_payload = Form_data [(''grant_type'', ''client_credentials''),
                                     (''client_id'', client_id fresh),
                                     (''client_secret'', client_secret fresh),
                                     (''resource'', resource fresh)]\<rparr>]\<rparr>)
      \<and> get_twin_status env now fresh eco_twin_id =
         (Inl (HTTPError (status_code rt)),
          fresh\<lparr>sent := sent fresh @
            [\<lparr>req_method = POST, req_url = token_url,
            req_headers = [(''Content-Type'', ''application/x-www-form-urlencoded'')],
            req_payload = Form_data [(''grant_type'', ''client_credentials''),
                                     (''client_id'', client_id fresh),
                                     (''client_secret'', client_secret fresh),
                                     (''resource'', resource fresh)]\<rparr>]\<rparr>)
      \<and> get_all_twins_status env now fresh =
         (Inl (HTTPError (status_code rt)),
          fresh\<lparr>sent := sent fresh @
            [\<lparr>req_method = POST, req_url = token_url,
            req_headers = [(''Content-Type'', ''application/x-www-form-urlencoded'')],
            req_payload = Form_data [(''grant_type'', ''client_credentials''),
                                     (''client_id'', client_id fresh),
                                     (''client_secret'', client_secret fresh),
                                     (''resource'', resource fresh)]\<rparr>]\<rparr>))
   \<and> (ensure_valid_token env now s = (Inr tok, s')
      \<and> respond env (sent s')
           \<lparr>req_method = PUT,
            req_url = forecast_url eco_twin_id @ (if chk then ''?check'' else ''''),
            req_headers = [(''Authorization'', ''Bearer '' @ py_format env tok),
                           (''Content-Type'', ''application/json'')],
            req_payload = Json_payload fc\<rparr> = Some rp
    \<longrightarrow> put_forecast env now s eco_twin_id fc chk =
         (if 400 \<le> status_code rp \<and> status_code rp < 600
          then Inl (HTTPError (status_code rp)) else Inr rp,
          s'\<lparr>sent := sent s' @
            [\<lparr>req_method = PUT,
            req_url = forecast_url eco_twin_id @ (if chk then ''?check'' else ''''),
            req_headers = [(''Authorization'', ''Bearer '' @ py_format env tok),
                           (''Content-Type'', ''application/json'')],
            req_payload = Json_payload fc\<rparr>]\<rparr>))
   \<and> (ensure_valid_token env now s = (Inr tok, s')
      \<and> respond env (sent s')
           \<lparr>req_method = GET, req_url = twin_status_url eco_twin_id,
            req_headers = [(''Authorization'', ''Bearer '' @ py_format env tok)],
            req_payload = No_payload\<rparr> = Some rg
    \<longrightarrow> get_twin_status env now s eco_twin_id =
         (if 400 \<le> status_code rg \<and> status_code rg < 600
          then Inl (HTTPError (status_code rg))
          else (case json_body rg of None \<Rightarrow> Inl JSONDecodeError | Some body \<Rightarrow> Inr body),
          s'\<lparr>sent := sent s' @
            [\<lparr>req_method = GET, req_url = twin_status_url eco_twin_id,
            req_headers = [(''Authorization'', ''Bearer '' @ py_format env tok)],
            req_payload = No_payload\<rparr>]\<rparr>))
   \<and> (ensure_valid_token env now s = (Inr tok, s')
      \<and> respond env (sent s')
           \<lparr>req_method = GET, req_url = all_status_url,
            req_headers = [(''Authorization'', ''Bearer '' @ py_format env tok)],
            req_payload = No_payload\<rparr> = Some rs
    \<longrightarrow> get_all_twins_status env now s =
         (if 400 \<le> status_code rs \<and> status_code rs < 600
          then Inl (HTTPError (status_code rs))
          else (case json_body rs of None \<Rightarrow> Inl JSONDecodeError | Some body \<Rightarrow> Inr body),
          s'\<lparr>sent := sent s' @
            [\<lparr>req_method = GET, req_url = all_status_url,
            req_headers = [(''Authorization'', ''Bearer '' @ py_format env tok)],
            req_payload = No_payload\<rparr>]\<rparr>))
   \<and> (ensure_valid_token env now s = (Inr tok, s')
      \<and> respond env (sent s')
           \<lparr>req_method = GET, req_url = twin_status_url eco_twin_id,
            req_headers = [(''Authorization'', ''Bearer '' @ py_format env tok)],
            req_payload = No_payload\<rparr> = Some rg
      \<and> 200 \<le> status_code rg \<and> status_code rg < 300 \<and> json_body rg = Some parsed
    \<longrightarrow> get_twin_status env now s eco_twin_id =
         (Inr parsed,
          s'\<lparr>sent := sent s' @
            [\<lparr>req_method = GET, req_url = twin_status_url eco_twin_id,
            req_headers = [(''Authorization'', ''Bearer '' @ py_format env tok)],
            req_payload = No_payload\<rparr>]\<rparr>))
   \<and> (ensure_valid_token env now s = (Inr tok, s')
      \<and> respond env (sent s')
           \<lparr>req_method = GET, req_url = all_status_url,
            req_headers = [(''Authorization'', ''Bearer '' @ py_format env tok)],
            req_payload = No_payload\<rparr> = Some rs
      \<and> 200 \<le> status_code rs \<and> status_code rs < 300 \<and> json_body rs = Some parsed
    \<longrightarrow> get_all_twins_status env now s =
         (Inr parsed,
          s'\<lparr>sent := sent s' @
            [\<lparr>req_method = GET, req_url = all_status_url,
            req_headers = [(''Authorization'', ''Bearer '' @ py_format env tok)],
            req_payload = No_payload\<rparr>]\<rparr>))"
proof -
  have token_post: "\<not> truthy (get_token (token_manager fresh))
      \<and> respond env (sent fresh)
           \<lparr>req_method = POST, req_url = token_url,
            req_headers = [(''Content-Type'', ''application/x-www-form-urlencoded'')],
            req_payload = Form_data [(''grant_type'', ''client_credentials''),
                                     (''client_id'', client_id fresh),
                                     (''client_secret'', client_secret fresh),
                                     (''resource'', resource fresh)]\<rparr> = Some rt
      \<and> 400 \<le> status_code rt \<and> status_code rt < 600
    \<longrightarrow> get_access_token env now fresh =
         (Inl (HTTPError (status_code rt)),
          fresh\<lparr>sent := sent fresh @
            [\<lparr>req_method = POST, req_url = token_url,
            req_headers = [(''Content-Type'', ''application/x-www-form-urlencoded'')],
            req_payload = Form_data [(''grant_type'', ''client_credentials''),
                                     (''client_id'', client_id fresh),
                                     (''client_secret'', client_secret fresh),
                                     (''resource'', resource fresh)]\<rparr>]\<rparr>)
      \<and> ensure_valid_token env now fresh =
         (Inl (HTTPError (status_code rt)),
          fresh\<lparr>sent := sent fresh @
            [\<lparr>req_method = POST, req_url = token_url,
            req_headers = [(''Content-Type'', ''application/x-www-form-urlencoded'')],
            req_payload = Form_data [(''grant_type'', ''client_credentials''),
                                     (''client_id'', client_id fresh),
                                     (''client_secret'', client_secret fresh),
                                     (''resource'', resource fresh)]\<rparr>]\<rparr>)
      \<and> put_forecast env now fresh eco_twin_id fc chk =
         (Inl (HTTPError (status_code rt)),
          fresh\<lparr>sent := sent fresh @
            [\<lparr>req_method = POST, req_url = token_url,
            req_headers = [(''Content-Type'', ''application/x-www-form-urlencoded'')],
            req_payload = Form_data [(''grant_type'', ''client_credentials''),
                                     (''client_id'', client_id fresh),
                                     (''client_secret'', client_secret fresh),
                                     (''resource'', resource fresh)]\<rparr>]\<rparr>)
      \<and> get_twin_status env now fresh eco_twin_id =
         (Inl (HTTPError (status_code rt)),
          fresh\<lparr>sent := sent fresh @
            [\<lparr>req_method = POST, req_url = token_url,
            req_headers = [(''Content-Type'', ''application/x-www-form-urlencoded'')],
            req_payload = Form_data [(''grant_type'', ''client_credentials''),
                                     (''client_id'', client_id fresh),
                                     (''client_secret'', client_secret fresh),
                                     (''resource'', resource fresh)]\<rparr>]\<rparr>)
      \<and> get_all_twins_status env now fresh =
         (Inl (HTTPError (status_code rt)),
          fresh\<lparr>sent := sent fresh @
            [\<lparr>req_method = POST, req_url = token_url,
            req_headers = [(''Content-Type'', ''application/x-www-form-urlencoded'')],
            req_payload = Form_data [(''grant_type'', ''client_credentials''),
                                     (''client_id'', client_id fresh),
                                     (''client_secret'', client_secret fresh),
                                     (''resource'', resource fresh)]\<rparr>]\<rparr>)"
  proof
    assume a: "\<not> truthy (get_token (token_manager fresh))
      \<and> respond env (sent fresh)
           \<lparr>req_method = POST, req_url = token_url,
            req_headers = [(''Content-Type'', ''application/x-www-form-urlencoded'')],
            req_payload = Form_data [(''grant_type'', ''client_credentials''),
                                     (''client_id'', client_id fresh),
                                     (''client_secret'', client_secret fresh),
                                     (''resource'', resource fresh)]\<rparr> = Some rt
      \<and> 400 \<le> status_code rt \<and> status_code rt < 600"
    then have r: "respond env (sent fresh)
           \<lparr>req_method = POST, req_url = token_url,
            req_headers = [(''Content-Type'', ''application/x-www-form-urlencoded'')],
            req_payload = Form_data [(''grant_type'', ''client_credentials''),
                                     (''client_id'', client_id fresh),
                                     (''client_secret'', client_secret fresh),
                                     (''resource'', resource fresh)]\<rparr> = Some rt"
      by simp
    from a have n: "\<not> truthy (get_token (token_manager fresh))"
      by simp
    from a have g: "get_access_token env now fresh =
         (Inl (HTTPError (status_code rt)),
          fresh\<lparr>sent := sent fresh @
            [\<lparr>req_method = POST, req_url = token_url,
            req_headers = [(''Content-Type'', ''application/x-www-form-urlencoded'')],
            req_payload = Form_data [(''grant_type'', ''client_credentials''),
                                     (''client_id'', client_id fresh),
                                     (''client_secret'', client_secret fresh),
                                     (''resource'', resource fresh)]\<rparr>]\<rparr>)"
      by (simp add: get_access_token_def fetch_token_response [OF r] Let_def)
    from token_error_reaches_caller [OF n g]
    show "get_access_token env now fresh =
         (Inl (HTTPError (status_code rt)),
          fresh\<lparr>sent := sent fresh @
            [\<lparr>req_method = POST, req_url = token_url,
            req_headers = [(''Content-Type'', ''application/x-www-form-urlencoded'')],
            req_payload = Form_data [(''grant_type'', ''client_credentials''),
                                     (''client_id'', client_id fresh),
                                     (''client_secret'', client_secret fresh),
                                     (''resource'', resource fresh)]\<rparr>]\<rparr>)
      \<and> ensure_valid_token env now fresh =
         (Inl (HTTPError (status_code rt)),
          fresh\<lparr>sent := sent fresh @
            [\<lparr>req_method = POST, req_url = token_url,
            req_headers = [(''Content-Type'', ''application/x-www-form-urlencoded'')],
            req_payload = Form_data [(''grant_type'', ''client_credentials''),
                                     (''client_id'', client_id fresh),
                                     (''client_secret'', client_secret fresh),
                                     (''resource'', resource fresh)]\<rparr>]\<rparr>)
      \<and> put_forecast env now fresh eco_twin_id fc chk =
         (Inl (HTTPError (status_code rt)),
          fresh\<lparr>sent := sent fresh @
            [\<lparr>req_method = POST, req_url = token_url,
            req_headers = [(''Content-Type'', ''application/x-www-form-urlencoded'')],
            req_payload = Form_data [(''grant_type'', ''client_credentials''),
                                     (''client_id'', client_id fresh),
                                     (''client_secret'', client_secret fresh),
                                     (''resource'', resource fresh)]\<rparr>]\<rparr>)
      \<and> get_twin_status env now fresh eco_twin_id =
         (Inl (HTTPError (status_code rt)),
          fresh\<lparr>sent := sent fresh @
            [\<lparr>req_method = POST, req_url = token_url,
            req_headers = [(''Content-Type'', ''application/x-www-form-urlencoded'')],
            req_payload = Form_data [(''grant_type'', ''client_credentials''),
                                     (''client_id'', client_id fresh),
                                     (''client_secret'', client_secret fresh),
                                     (''resource'', resource fresh)]\<rparr>]\<rparr>)
      \<and> get_all_twins_status env now fresh =
         (Inl (HTTPError (status_code rt)),
          fresh\<lparr>sent := sent fresh @
            [\<lparr>req_method = POST, req_url = token_url,
            req_headers = [(''Content-Type'', ''application/x-www-form-urlencoded'')],
            req_payload = Form_data [(''grant_type'', ''client_credentials''),
                                     (''client_id'', client_id fresh),
                                     (''client_secret'', client_secret fresh),
                                     (''resource'', resource fresh)]\<rparr>]\<rparr>)"
      using g by (simp add: get_twin_status_def get_all_twins_status_def)
  qed
  have put: "ensure_valid_token env now s = (Inr tok, s')
      \<and> respond env (sent s')
           \<lparr>req_method = PUT,
            req_url = forecast_url eco_twin_id @ (if chk then ''?check'' else ''''),
            req_headers = [(''Authorization'', ''Bearer '' @ py_format env tok),
                           (''Content-Type'', ''application/json'')],
            req_payload = Json_payload fc\<rparr> = Some rp
    \<longrightarrow> put_forecast env now s eco_twin_id fc chk =
         (if 400 \<le> status_code rp \<and> status_code rp < 600
          then Inl (HTTPError (status_code rp)) else Inr rp,
          s'\<lparr>sent := sent s' @
            [\<lparr>req_method = PUT,
            req_url = forecast_url eco_twin_id @ (if chk then ''?check'' else ''''),
            req_headers = [(''Authorization'', ''Bearer '' @ py_format env tok),
                           (''Content-Type'', ''application/json'')],
            req_payload = Json_payload fc\<rparr>]\<rparr>)"
    by (simp add: put_forecast_after_token [of env now s tok s'] raise_for_status_def)
  have twin: "ensure_valid_token env now s = (Inr tok, s')
      \<and> respond env (sent s')
           \<lparr>req_method = GET, req_url = twin_status_url eco_twin_id,
            req_headers = [(''Authorization'', ''Bearer '' @ py_format env tok)],
            req_payload = No_payload\<rparr> = Some rg
    \<longrightarrow> get_twin_status env now s eco_twin_id =
         (if 400 \<le> status_code rg \<and> status_code rg < 600
          then Inl (HTTPError (status_code rg))
          else (case json_body rg of None \<Rightarrow> Inl JSONDecodeError | Some body \<Rightarrow> Inr body),
          s'\<lparr>sent := sent s' @
            [\<lparr>req_method = GET, req_url = twin_status_url eco_twin_id,
            req_headers = [(''Authorization'', ''Bearer '' @ py_format env tok)],
            req_payload = No_payload\<rparr>]\<rparr>)"
    by (simp add: get_twin_status_def get_status_after_token [of env now s tok s']
        raise_for_status_def response_json_def)
  have all_twins: "ensure_valid_token env now s = (Inr tok, s')
      \<and> respond env (sent s')
           \<lparr>req_method = GET, req_url = all_status_url,
            req_headers = [(''Authorization'', ''Bearer '' @ py_format env tok)],
            req_payload = No_payload\<rparr> = Some rs
    \<longrightarrow> get_all_twins_status env now s =
         (if 400 \<le> status_code rs \<and> status_code rs < 600
          then Inl (HTTPError (status_code rs))
          else (case json_body rs of None \<Rightarrow> Inl JSONDecodeError | Some body \<Rightarrow> Inr body),
          s'\<lparr>sent := sent s' @
            [\<lparr>req_method = GET, req_url = all_status_url,
            req_headers = [(''Authorization'', ''Bearer '' @ py_format env tok)],
            req_payload = No_payload\<rparr>]\<rparr>)"
    by (simp add: get_all_twins_status_def get_status_after_token [of env now s tok s']
        raise_for_status_def response_json_def)
  have twin_ok: "ensure_valid_token env now s = (Inr tok, s')
      \<and> respond env (sent s')
           \<lparr>req_method = GET, req_url = twin_status_url eco_twin_id,
            req_headers = [(''Authorization'', ''Bearer '' @ py_format env tok)],
            req_payload = No_payload\<rparr> = Some rg
      \<and> 200 \<le> status_code rg \<and> status_code rg < 300 \<and> json_body rg = Some parsed
    \<longrightarrow> get_twin_status env now s eco_twin_id =
         (Inr parsed,
          s'\<lparr>sent := sent s' @
            [\<lparr>req_method = GET, req_url = twin_status_url eco_twin_id,
            req_headers = [(''Authorization'', ''Bearer '' @ py_format env tok)],
            req_payload = No_payload\<rparr>]\<rparr>)"
    by (simp add: get_twin_status_def get_status_after_token [of env now s tok s']
        raise_for_status_def response_json_def)
  have all_ok: "ensure_valid_token env now s = (Inr tok, s')
      \<and> respond env (sent s')
           \<lparr>req_method = GET, req_url = all_status_url,
            req_headers = [(''Authorization'', ''Bearer '' @ py_format env tok)],
            req_payload = No_payload\<rparr> = Some rs
      \<and> 200 \<le> status_code rs \<and> status_code rs < 300 \<and> json_body rs = Some parsed
    \<longrightarrow> get_all_twins_status env now s =
         (Inr parsed,
          s'\<lparr>sent := sent s' @
            [\<lparr>req_method = GET, req_url = all_status_url,
            req_headers = [(''Authorization'', ''Bearer '' @ py_format env tok)],
            req_payload = No_payload\<rparr>]\<rparr>)"
    by (simp add: get_all_twins_status_def get_status_after_token [of env now s tok s']
        raise_for_status_def response_json_def)
  show ?thesis
    by (rule conjI [OF token_post conjI [OF put conjI [OF twin
          conjI [OF all_twins conjI [OF twin_ok all_ok]]]]])
qed

text \<open>
  Claim C7 at a server answering 401 to the token POST of a client without a token, 503
  to the API calls of a client with one, and 200 with a status body.
\<close>

theorem http_errors_propagate_witness:
  "\<not> truthy (get_token (token_manager (sample_state None)))
   \<and> fst (get_access_token (sample_env 401) 100 (sample_state None)) = Inl (HTTPError 401)
   \<and> length (sent (snd (get_access_token (sample_env 401) 100 (sample_state None)))) = 1
   \<and> fst (put_forecast (sample_env 401) 100 (sample_state None) ''twin-1'' sample_forecast True)
       = Inl (HTTPError 401)
   \<and> length (sent (snd (put_forecast (sample_env 401) 100 (sample_state None) ''twin-1''
         sample_forecast True))) = 1
   \<and> fst (get_twin_status (sample_env 401) 100 (sample_state None) ''twin-1'')
       = Inl (HTTPError 401)
   \<and> fst (get_all_twins_status (sample_env 401) 100 (sample_state None)) = Inl (HTTPError 401)
   \<and> ensure_valid_token (sample_env 503) 100 (sample_state (Some (sample_token 500)))
       = (Inr (PStr ''cached-token''), sample_state (Some (sample_token 500)))
   \<and> fst (put_forecast (sample_env 503) 100 (sample_state (Some (sample_token 500)))
         ''twin-1'' sample_forecast True) = Inl (HTTPError 503)
   \<and> length (sent (snd (put_forecast (sample_env 503) 100
         (sample_state (Some (sample_token 500))) ''twin-1'' sample_forecast True))) = 1
   \<and> fst (get_twin_status (sample_env 503) 100 (sample_state (Some (sample_token 500)))
         ''twin-1'') = Inl (HTTPError 503)
   \<and> fst (get_all_twins_status (sample_env 503) 100 (sample_state (Some (sample_token 500))))
       = Inl (HTTPError 503)
   \<and> fst (get_twin_status (sample_env 200) 100 (sample_state (Some (sample_token 500)))
         ''twin-1'') = Inr (PDict [(''state'', PStr ''running'')])
   \<and> fst (get_all_twins_status (sample_env 200) 100 (sample_state (Some (sample_token 500))))
       = Inr (PDict [(''state'', PStr ''running'')])"
proof -
  let ?f = "sample_state None"
  let ?s = "sample_state (Some (sample_token 500))"
  let ?parsed = "PDict [(''state'', PStr ''running'')]"
  let ?body = "Some ?parsed"
  have h1: "\<not> truthy (get_token (token_manager ?f))"
    by (simp add: sample_state_fields get_token_def truthy_def)
  have u: "forecast_url eco_twin_id @ q \<noteq> token_url"
      "twin_status_url eco_twin_id \<noteq> token_url" "all_status_url \<noteq> token_url"
    for eco_twin_id q
    by (rule api_urls_not_identity)+
  note bad = http_errors_propagate [where fresh = ?f and env = "sample_env 401" and now = 100
      and eco_twin_id = "''twin-1''" and fc = sample_forecast and chk = True
      and rt = "\<lparr>status_code = 401,
                 json_body = Some (PDict [(''access_token'', PStr ''fresh-token''),
                                          (''expires_in'', PStr ''3599'')])\<rparr>"]
  note down = http_errors_propagate [where env = "sample_env 503" and now = 100 and s = ?s
      and s' = ?s and tok = "PStr ''cached-token''" and eco_twin_id = "''twin-1''"
      and fc = sample_forecast and chk = True
      and rp = "\<lparr>status_code = 503, json_body = ?body\<rparr>"
      and rg = "\<lparr>status_code = 503, json_body = ?body\<rparr>"
      and rs = "\<lparr>status_code = 503, json_body = ?body\<rparr>"]
  note up = http_errors_propagate [where env = "sample_env 200" and now = 100 and s = ?s
      and s' = ?s and tok = "PStr ''cached-token''" and eco_twin_id = "''twin-1''"
      and rg = "\<lparr>status_code = 200, json_body = ?body\<rparr>"
      and rs = "\<lparr>status_code = 200, json_body = ?body\<rparr>"
      and parsed = ?parsed]
  have a: "fst (get_access_token (sample_env 401) 100 ?f) = Inl (HTTPError 401)
      \<and> length (sent (snd (get_access_token (sample_env 401) 100 ?f))) = 1
      \<and> fst (put_forecast (sample_env 401) 100 ?f ''twin-1'' sample_forecast True)
          = Inl (HTTPError 401)
      \<and> length (sent (snd (put_forecast (sample_env 401) 100 ?f ''twin-1''
            sample_forecast True))) = 1
      \<and> fst (get_twin_status (sample_env 401) 100 ?f ''twin-1'') = Inl (HTTPError 401)
      \<and> fst (get_all_twins_status (sample_env 401) 100 ?f) = Inl (HTTPError 401)"
    using bad h1 by (simp add: sample_respond sample_state_fields)
  have b: "fst (put_forecast (sample_env 503) 100 ?s ''twin-1'' sample_forecast True)
        = Inl (HTTPError 503)
      \<and> length (sent (snd (put_forecast (sample_env 503) 100 ?s ''twin-1''
          sample_forecast True))) = 1
      \<and> fst (get_twin_status (sample_env 503) 100 ?s ''twin-1'') = Inl (HTTPError 503)
      \<and> fst (get_all_twins_status (sample_env 503) 100 ?s) = Inl (HTTPError 503)"
    using down by (simp add: sample_respond sample_state_fields sample_cached_any u)
  have c: "fst (get_twin_status (sample_env 200) 100 ?s ''twin-1'') = Inr ?parsed
      \<and> fst (get_all_twins_status (sample_env 200) 100 ?s) = Inr ?parsed"
    using up by (simp add: sample_respond sample_state_fields sample_cached_any u)
  from h1 a b c show ?thesis
    by (simp add: sample_cached_any)
qed

text \<open>
  Claim C7 as stated fails twice: a response with status 304 is not 2xx, yet
  \<open>put_forecast\<close> raises nothing and returns that response; and a response with status
  204 is 2xx, yet \<open>get_twin_status\<close>, finding no JSON in it, fails with a decode error
  instead of returning a parsed body.
\<close>

theorem non_error_status_counterexample:
  "put_forecast (sample_env 304) 100 (sample_state (Some (sample_token 500)))
      ''twin-1'' sample_forecast True
   = (Inr \<lparr>status_code = 304, json_body = Some (PDict [(''state'', PStr ''running'')])\<rparr>,
      (sample_state (Some (sample_token 500)))
        \<lparr>sent := [\<lparr>req_method = PUT,
           req_url = ''https://energyoptimizer.azure-api.net/eco/v2/twins/twin-1/forecast/external?check'',
           req_headers = [(''Authorization'', ''Bearer cached-token''),
                          (''Content-Type'', ''application/json'')],
           req_payload = Json_payload sample_forecast\<rparr>]\<rparr>)
   \<and> \<not> (200 \<le> (304::int) \<and> (304::int) < 300)
   \<and> get_twin_status (bodyless_env 204) 100 (sample_state (Some (sample_token 500))) ''twin-1''
   = (Inl JSONDecodeError,
      (sample_state (Some (sample_token 500)))
        \<lparr>sent := [\<lparr>req_method = GET,
           req_url = ''https://energyoptimizer.azure-api.net/eco/v2/twins/twin-1/status'',
           req_headers = [(''Authorization'', ''Bearer cached-token'')],
           req_payload = No_payload\<rparr>]\<rparr>)
   \<and> 200 \<le> (204::int) \<and> (204::int) < 300"
  by (simp add: put_forecast_after_token [OF sample_cached_any]
      get_twin_status_def get_status_after_token [OF sample_cached_any] sample_respond
      bodyless_env_def sample_state_fields raise_for_status_def response_json_def
      forecast_url_def twin_status_url_def py_format_def token_url_def)

end
